theory Spec2Isabelle
  imports Main "HOL-Library.Sublist"
begin

section \<open>The persistent volume claim resource\<close>

text \<open>
  A shallow embedding of \<^verbatim>\<open>kubernetes/resource_kubernetes_persistent_volume_claim.go\<close>.
  Every Go function of that file is one HOL function of the same name. A Go function
  that mutates the resource data \<open>d\<close> returns the updated \<open>d\<close>; a Go function that talks
  to the cluster takes the session (the cluster's state and the list of calls made so
  far) and returns the new one. \<^verbatim>\<open>log.Printf\<close> lines have no effect on \<open>d\<close>, on the
  cluster or on the result and are left out.
\<close>

subsection \<open>API objects\<close>

type_synonym Duration = int \<comment> \<open>\<^verbatim>\<open>time.Duration\<close>: nanoseconds\<close>

definition Second :: Duration where
  "Second = 1000000000"

definition Minute :: Duration where
  "Minute = 60 * Second"

record ObjectMeta =
  Name :: string
  Namespace :: string
  Labels :: "(string \<times> string) list"
  Annotations :: "(string \<times> string) list"

record PersistentVolumeClaimSpec =
  AccessModes :: "string list"
  StorageClassName :: "string option"
  VolumeName :: string

record PersistentVolumeClaimStatus =
  Phase :: string

record PersistentVolumeClaim =
  ObjectMeta :: ObjectMeta
  Spec :: PersistentVolumeClaimSpec
  Status :: PersistentVolumeClaimStatus

record Event =
  InvolvedObjectName :: string
  Reason :: string
  Message :: string
  LastTimestamp :: int

subsection \<open>Errors\<close>

text \<open>
  A Go \<^verbatim>\<open>error\<close> is a value of \<open>error\<close>; \<^verbatim>\<open>nil\<close> is \<open>None\<close> of \<open>error option\<close>, and a
  call returning \<^verbatim>\<open>(value, error)\<close> returns \<open>error + value\<close>.
  \<open>StatusError code message\<close> is \<^verbatim>\<open>*errors.StatusError\<close> with \<^verbatim>\<open>ErrStatus.Code\<close> and
  \<^verbatim>\<open>ErrStatus.Message\<close>; \<open>ErrorString\<close> is any other error value, given by its text
  (\<^verbatim>\<open>fmt.Errorf\<close>, transport failures). The last three are the errors of the identity
  codec and of the convergence waiter, which the specification names
  \<open>MalformedIdentity\<close>, \<open>ConvergenceFailed\<close> and \<open>ConvergenceTimeout\<close>.
\<close>

datatype error =
    StatusError int string
  | ErrorString string
  | MalformedIdentity string
  | UnexpectedStateError string
  | TimeoutError string

text \<open>The method \<^verbatim>\<open>Error() string\<close>, which \<^verbatim>\<open>%s\<close> prints.\<close>

fun Error :: "error \<Rightarrow> string" where
  "Error (StatusError code message) = message"
| "Error (ErrorString text) = text"
| "Error (MalformedIdentity ident) = ''malformed identity: '' @ ident"
| "Error (UnexpectedStateError phase) = ''unexpected state: '' @ phase"
| "Error (TimeoutError phase) = ''timeout, last state: '' @ phase"

subsection \<open>Resource data\<close>

text \<open>
  \<^verbatim>\<open>interface{}\<close> values of the schema layer. The schema of the resource
  (\<^verbatim>\<open>persistentVolumeClaimSpecFields\<close>, not part of this file) is taken to declare what
  the type assertions of \<^verbatim>\<open>Create\<close> require: \<open>metadata\<close> and \<open>spec\<close> as lists and
  \<open>wait_until_bound\<close> as a boolean.
\<close>

datatype raw =
    RString string
  | RBool bool
  | RInt int
  | RList "raw list"
  | RMap "(string \<times> raw) list"

record ResourceData =
  ID :: string \<comment> \<open>\<^verbatim>\<open>d.Id()\<close>, \<^verbatim>\<open>d.SetId\<close>\<close>
  metadata :: "raw list"
  spec :: "raw list"
  wait_until_bound :: bool
  timeouts_create :: "Duration option" \<comment> \<open>the \<^verbatim>\<open>create\<close> timeout of the configuration, if any\<close>

record ResourceTimeout =
  Create :: "Duration option"

definition DefaultTimeout :: "Duration \<Rightarrow> Duration option" where
  "DefaultTimeout tm = Some tm"

text \<open>The \<^verbatim>\<open>Timeouts\<close> field of \<^verbatim>\<open>resourceKubernetesPersistentVolumeClaim()\<close> (lines 30-32).\<close>

definition resourceKubernetesPersistentVolumeClaim_Timeouts :: ResourceTimeout where
  "resourceKubernetesPersistentVolumeClaim_Timeouts = \<lparr>Create = DefaultTimeout (5 * Minute)\<rparr>"

text \<open>
  Modelled from the spec: \<^verbatim>\<open>d.Timeout(schema.TimeoutCreate)\<close> of the schema library, which
  is not part of this repository. The deadline is "configurable (default 5 minutes)": the
  configured value when there is one, else the default the resource declares (and the
  library's own 20 minutes if the resource declared none).
\<close>

definition d_Timeout :: "ResourceData \<Rightarrow> Duration" where
  "d_Timeout d =
     (case timeouts_create d of
        Some tm \<Rightarrow> tm
      | None \<Rightarrow>
          (case Create resourceKubernetesPersistentVolumeClaim_Timeouts of
             Some tm \<Rightarrow> tm
           | None \<Rightarrow> 20 * Minute))"

subsection \<open>Identity codec\<close>

text \<open>
  Modelled from the spec: \<^verbatim>\<open>buildId\<close> and \<^verbatim>\<open>idParts\<close> live in another file of the package.
  The identity string is \<^verbatim>\<open>namespace/name\<close>; decoding fails with \<open>MalformedIdentity\<close>
  "if the encoding does not contain the expected delimiter/segment count".
\<close>

fun split_on :: "char \<Rightarrow> string \<Rightarrow> string list" where
  "split_on c [] = [[]]"
| "split_on c (x # xs) =
     (if x = c then [] # split_on c xs
      else (case split_on c xs of
              [] \<Rightarrow> [[x]]
            | p # ps \<Rightarrow> (x # p) # ps))"

definition buildId :: "ObjectMeta \<Rightarrow> string" where
  "buildId m = Namespace m @ ''/'' @ Name m"

definition idParts :: "string \<Rightarrow> error + (string \<times> string)" where
  "idParts ident =
     (case split_on (CHR ''/'') ident of
        [namespace, name] \<Rightarrow> Inr (namespace, name)
      | _ \<Rightarrow> Inl (MalformedIdentity ident))"

subsection \<open>Patch operations\<close>

text \<open>
  Modelled from the spec: the type \<^verbatim>\<open>PatchOperations\<close> lives in another file of the
  package; it is a "typed patch-operation list (add/replace/remove at fixed
  JSON-pointer-style paths)".
\<close>

datatype PatchOperation =
    AddOperation string raw
  | ReplaceOperation string raw
  | RemoveOperation string

fun Path :: "PatchOperation \<Rightarrow> string" where
  "Path (AddOperation p v) = p"
| "Path (ReplaceOperation p v) = p"
| "Path (RemoveOperation p) = p"

definition JSONPatchType :: string where
  "JSONPatchType = ''application/json-patch+json''"

subsection \<open>The cluster and the session\<close>

text \<open>
  Every request the resource sends is recorded, in order, as a \<open>call\<close>: the four
  operations of \<^verbatim>\<open>conn.CoreV1().PersistentVolumeClaims(namespace)\<close>, the event query of
  \<^verbatim>\<open>getLastWarningsForObject\<close> (object, kind, limit) and the start of a convergence wait
  (target states, pending states, timeout).
\<close>

datatype call =
    CreateCall string PersistentVolumeClaim
  | GetCall string string
  | PatchCall string string string string
  | DeleteCall string string
  | WarningsCall ObjectMeta string int
  | WaitCall "string list" "string list" Duration

record 'w session =
  calls :: "call list"
  world :: 'w

text \<open>
  What the resource is given and does not define itself: the cluster behind \<^verbatim>\<open>conn\<close>
  (each operation answers from the state \<open>'w\<close> of the cluster and may change it), and the
  helpers of the package that live in other files, taken as parameters.
  \<open>SetError key v\<close> is the error, if any, with which \<^verbatim>\<open>d.Set(key, v)\<close> rejects a value
  that does not fit the schema; \<open>polls_within tm\<close> is the number of polls the waiter
  completes before a deadline of \<open>tm\<close> elapses.
\<close>

record 'w env =
  pvc_Create :: "string \<Rightarrow> PersistentVolumeClaim \<Rightarrow> 'w \<Rightarrow> (error + PersistentVolumeClaim) \<times> 'w"
  pvc_Get :: "string \<Rightarrow> string \<Rightarrow> 'w \<Rightarrow> (error + PersistentVolumeClaim) \<times> 'w"
  pvc_Patch :: "string \<Rightarrow> string \<Rightarrow> string \<Rightarrow> string \<Rightarrow> 'w \<Rightarrow> (error + PersistentVolumeClaim) \<times> 'w"
  pvc_Delete :: "string \<Rightarrow> string \<Rightarrow> 'w \<Rightarrow> error option \<times> 'w"
  getLastWarningsForObject :: "ObjectMeta \<Rightarrow> string \<Rightarrow> int \<Rightarrow> 'w \<Rightarrow> (error + Event list) \<times> 'w"
  stringifyEvents :: "Event list \<Rightarrow> string"
  expandMetadata :: "raw list \<Rightarrow> ObjectMeta"
  expandPersistentVolumeClaimSpec :: "raw list \<Rightarrow> error + PersistentVolumeClaimSpec"
  flattenMetadata :: "ObjectMeta \<Rightarrow> ResourceData \<Rightarrow> raw list"
  flattenPersistentVolumeClaimSpec :: "PersistentVolumeClaimSpec \<Rightarrow> raw list"
  SetError :: "string \<Rightarrow> raw list \<Rightarrow> error option"
  patchMetadata :: "string \<Rightarrow> string \<Rightarrow> ResourceData \<Rightarrow> PatchOperation list"
  MarshalJSON :: "PatchOperation list \<Rightarrow> error + string"
  polls_within :: "Duration \<Rightarrow> nat"

definition invoke :: "call \<Rightarrow> ('w \<Rightarrow> 'a \<times> 'w) \<Rightarrow> 'w session \<Rightarrow> 'a \<times> 'w session" where
  "invoke c f s = (case f (world s) of (r, w') \<Rightarrow> (r, \<lparr>calls = calls s @ [c], world = w'\<rparr>))"

definition conn_Create :: "'w env \<Rightarrow> string \<Rightarrow> PersistentVolumeClaim \<Rightarrow> 'w session
    \<Rightarrow> (error + PersistentVolumeClaim) \<times> 'w session" where
  "conn_Create env namespace claim = invoke (CreateCall namespace claim) (pvc_Create env namespace claim)"

definition conn_Get :: "'w env \<Rightarrow> string \<Rightarrow> string \<Rightarrow> 'w session
    \<Rightarrow> (error + PersistentVolumeClaim) \<times> 'w session" where
  "conn_Get env namespace name = invoke (GetCall namespace name) (pvc_Get env namespace name)"

definition conn_Patch :: "'w env \<Rightarrow> string \<Rightarrow> string \<Rightarrow> string \<Rightarrow> string \<Rightarrow> 'w session
    \<Rightarrow> (error + PersistentVolumeClaim) \<times> 'w session" where
  "conn_Patch env namespace name pt data =
     invoke (PatchCall namespace name pt data) (pvc_Patch env namespace name pt data)"

definition conn_Delete :: "'w env \<Rightarrow> string \<Rightarrow> string \<Rightarrow> 'w session \<Rightarrow> error option \<times> 'w session" where
  "conn_Delete env namespace name = invoke (DeleteCall namespace name) (pvc_Delete env namespace name)"

definition conn_getLastWarningsForObject :: "'w env \<Rightarrow> ObjectMeta \<Rightarrow> string \<Rightarrow> int \<Rightarrow> 'w session
    \<Rightarrow> (error + Event list) \<times> 'w session" where
  "conn_getLastWarningsForObject env m kind limit =
     invoke (WarningsCall m kind limit) (getLastWarningsForObject env m kind limit)"

text \<open>\<^verbatim>\<open>d.Set(key, v)\<close> for the two list-valued fields that \<^verbatim>\<open>Read\<close> writes.\<close>

definition d_Set :: "'w env \<Rightarrow> string \<Rightarrow> raw list \<Rightarrow> ResourceData \<Rightarrow> error + ResourceData" where
  "d_Set env key v d =
     (case SetError env key v of
        Some err \<Rightarrow> Inl err
      | None \<Rightarrow>
          if key = ''metadata'' then Inr (d\<lparr>metadata := v\<rparr>)
          else if key = ''spec'' then Inr (d\<lparr>spec := v\<rparr>)
          else Inr d)"

subsection \<open>Import, Read, Update, Delete, Exists\<close>

text \<open>
  The \<^verbatim>\<open>State\<close> function of the importer (lines 24-27). \<^verbatim>\<open>d.Set("wait_until_bound", true)\<close>
  writes a boolean to the boolean field of the schema; its error result is dropped by
  the source.
\<close>

definition Importer_State :: "'w env \<Rightarrow> ResourceData \<Rightarrow> 'w session
    \<Rightarrow> (error + ResourceData list) \<times> 'w session" where
  "Importer_State env d s = (Inr [d\<lparr>wait_until_bound := True\<rparr>], s)"

definition resourceKubernetesPersistentVolumeClaimRead :: "'w env \<Rightarrow> ResourceData \<Rightarrow> 'w session
    \<Rightarrow> (error option \<times> ResourceData) \<times> 'w session" where
  "resourceKubernetesPersistentVolumeClaimRead env d s =
     (case idParts (ID d) of
        Inl err \<Rightarrow> ((Some err, d), s)
      | Inr (namespace, name) \<Rightarrow>
          (case conn_Get env namespace name s of
             (Inl err, s1) \<Rightarrow> ((Some err, d), s1)
           | (Inr claim, s1) \<Rightarrow>
               (case d_Set env ''metadata'' (flattenMetadata env (ObjectMeta claim) d) d of
                  Inl err \<Rightarrow> ((Some err, d), s1)
                | Inr d1 \<Rightarrow>
                    (case d_Set env ''spec'' (flattenPersistentVolumeClaimSpec env (Spec claim)) d1 of
                       Inl err \<Rightarrow> ((Some err, d1), s1)
                     | Inr d2 \<Rightarrow> ((None, d2), s1)))))"

definition resourceKubernetesPersistentVolumeClaimUpdate :: "'w env \<Rightarrow> ResourceData \<Rightarrow> 'w session
    \<Rightarrow> (error option \<times> ResourceData) \<times> 'w session" where
  "resourceKubernetesPersistentVolumeClaimUpdate env d s =
     (case idParts (ID d) of
        Inl err \<Rightarrow> ((Some err, d), s)
      | Inr (namespace, name) \<Rightarrow>
          (let ops = patchMetadata env ''metadata.0.'' ''/metadata/'' d in
           case MarshalJSON env ops of
             Inl err \<Rightarrow>
               ((Some (ErrorString (''Failed to marshal update operations: '' @ Error err)), d), s)
           | Inr data \<Rightarrow>
               (case conn_Patch env namespace name JSONPatchType data s of
                  (Inl err, s1) \<Rightarrow> ((Some err, d), s1)
                | (Inr out, s1) \<Rightarrow> resourceKubernetesPersistentVolumeClaimRead env d s1)))"

definition resourceKubernetesPersistentVolumeClaimDelete :: "'w env \<Rightarrow> ResourceData \<Rightarrow> 'w session
    \<Rightarrow> (error option \<times> ResourceData) \<times> 'w session" where
  "resourceKubernetesPersistentVolumeClaimDelete env d s =
     (case idParts (ID d) of
        Inl err \<Rightarrow> ((Some err, d), s)
      | Inr (namespace, name) \<Rightarrow>
          (case conn_Delete env namespace name s of
             (Some err, s1) \<Rightarrow> ((Some err, d), s1)
           | (None, s1) \<Rightarrow> ((None, d\<lparr>ID := ''''\<rparr>), s1)))"

text \<open>
  Lines 188-194: an error that is a \<^verbatim>\<open>*errors.StatusError\<close> with code 404 gives
  \<^verbatim>\<open>false, nil\<close>; everything else, success included, falls through to \<^verbatim>\<open>return true, err\<close>.
\<close>

definition resourceKubernetesPersistentVolumeClaimExists :: "'w env \<Rightarrow> ResourceData \<Rightarrow> 'w session
    \<Rightarrow> (bool \<times> error option) \<times> 'w session" where
  "resourceKubernetesPersistentVolumeClaimExists env d s =
     (case idParts (ID d) of
        Inl err \<Rightarrow> ((False, Some err), s)
      | Inr (namespace, name) \<Rightarrow>
          (case conn_Get env namespace name s of
             (Inl err, s1) \<Rightarrow>
               (case err of
                  StatusError code message \<Rightarrow>
                    if code = 404 then ((False, None), s1) else ((True, Some err), s1)
                | _ \<Rightarrow> ((True, Some err), s1))
           | (Inr claim, s1) \<Rightarrow> ((True, None), s1)))"

subsection \<open>The convergence waiter\<close>

record 'w StateChangeConf =
  Target :: "string list"
  Pending :: "string list"
  Timeout :: Duration
  Refresh :: "'w session \<Rightarrow> (error + PersistentVolumeClaim \<times> string) \<times> 'w session"

text \<open>
  Modelled from the spec: \<^verbatim>\<open>WaitForState\<close> of \<^verbatim>\<open>resource.StateChangeConf\<close> belongs to a
  library that is not part of this repository. Section 4.2 of the specification: poll
  repeatedly; a phase in the success set resolves success with the last observation, a
  phase in the pending set continues, anything else resolves failure with the unexpected
  phase, an error of the poll function resolves failure with that error, and when the
  deadline elapses the wait resolves as deadline exceeded with the last observed phase.
  Real time is not modelled: the deadline is the number of polls that fit before it.
\<close>

fun poll :: "nat \<Rightarrow> 'w StateChangeConf \<Rightarrow> string \<Rightarrow> 'w session
    \<Rightarrow> (error + PersistentVolumeClaim) \<times> 'w session" where
  "poll 0 conf last_phase s = (Inl (TimeoutError last_phase), s)"
| "poll (Suc n) conf last_phase s =
     (case Refresh conf s of
        (Inl err, s1) \<Rightarrow> (Inl err, s1)
      | (Inr (observation, phase), s1) \<Rightarrow>
          if phase \<in> set (Target conf) then (Inr observation, s1)
          else if phase \<in> set (Pending conf) then poll n conf phase s1
          else (Inl (UnexpectedStateError phase), s1))"

definition WaitForState :: "(Duration \<Rightarrow> nat) \<Rightarrow> 'w StateChangeConf \<Rightarrow> 'w session
    \<Rightarrow> (error + PersistentVolumeClaim) \<times> 'w session" where
  "WaitForState polls conf s =
     poll (polls (Timeout conf)) conf ''''
       (s\<lparr>calls := calls s @ [WaitCall (Target conf) (Pending conf) (Timeout conf)]\<rparr>)"

subsection \<open>Create\<close>

text \<open>
  The \<^verbatim>\<open>Refresh\<close> closure of lines 67-77. On an error the Go closure returns the empty
  phase with the error; the sum type keeps the error only.
\<close>

definition refreshClaim :: "'w env \<Rightarrow> string \<Rightarrow> string \<Rightarrow> 'w session
    \<Rightarrow> (error + PersistentVolumeClaim \<times> string) \<times> 'w session" where
  "refreshClaim env namespace name s =
     (case conn_Get env namespace name s of
        (Inl err, s1) \<Rightarrow> (Inl err, s1)
      | (Inr out, s1) \<Rightarrow> (Inr (out, Phase (Status out)), s1))"

text \<open>The \<^verbatim>\<open>stateConf\<close> literal of lines 63-78.\<close>

definition stateConf :: "'w env \<Rightarrow> ResourceData \<Rightarrow> ObjectMeta \<Rightarrow> string \<Rightarrow> 'w StateChangeConf" where
  "stateConf env d metadata' name =
     \<lparr>Target = [''Bound''],
      Pending = [''Pending''],
      Timeout = d_Timeout d,
      Refresh = refreshClaim env (Namespace metadata') name\<rparr>"

text \<open>
  In lines 80-98 \<open>out\<close> is the answer of the creation request (line 53): the \<open>out\<close> of
  the \<^verbatim>\<open>Refresh\<close> closure is a variable of its own.
\<close>

definition resourceKubernetesPersistentVolumeClaimCreate :: "'w env \<Rightarrow> ResourceData \<Rightarrow> 'w session
    \<Rightarrow> (error option \<times> ResourceData) \<times> 'w session" where
  "resourceKubernetesPersistentVolumeClaimCreate env d s =
     (let metadata' = expandMetadata env (metadata d) in
      case expandPersistentVolumeClaimSpec env (spec d) of
        Inl err \<Rightarrow> ((Some err, d), s)
      | Inr spec' \<Rightarrow>
          (let claim = \<lparr>ObjectMeta = metadata', Spec = spec', Status = \<lparr>Phase = ''''\<rparr>\<rparr> in
           case conn_Create env (Namespace metadata') claim s of
             (Inl err, s1) \<Rightarrow> ((Some err, d), s1)
           | (Inr out, s1) \<Rightarrow>
               (let d1 = d\<lparr>ID := buildId (ObjectMeta out)\<rparr>;
                    name = Name (ObjectMeta out) in
                if wait_until_bound d1 then
                  (case WaitForState (polls_within env) (stateConf env d1 metadata' name) s1 of
                     (Inl err, s2) \<Rightarrow>
                       (case conn_getLastWarningsForObject env (ObjectMeta out)
                               ''PersistentVolumeClaim'' 3 s2 of
                          (Inl wErr, s3) \<Rightarrow> ((Some wErr, d1), s3)
                        | (Inr lastWarnings, s3) \<Rightarrow>
                            if length lastWarnings = 0 then
                              (case conn_getLastWarningsForObject env
                                      \<lparr>Name = VolumeName (Spec out), Namespace = '''',
                                       Labels = [], Annotations = []\<rparr>
                                      ''PersistentVolume'' 3 s3 of
                                 (Inl wErr, s4) \<Rightarrow> ((Some wErr, d1), s4)
                               | (Inr lastWarnings, s4) \<Rightarrow>
                                   ((Some (ErrorString (Error err @ stringifyEvents env lastWarnings)),
                                     d1), s4))
                            else
                              ((Some (ErrorString (Error err @ stringifyEvents env lastWarnings)),
                                d1), s3))
                   | (Inr bound, s2) \<Rightarrow> resourceKubernetesPersistentVolumeClaimRead env d1 s2)
                else resourceKubernetesPersistentVolumeClaimRead env d1 s1)))"

subsection \<open>A cluster to run the operations on\<close>

text \<open>
  A concrete cluster, with the number of requests served as its state. Every claim it
  is asked for is in phase \<open>Lost\<close>, except that the claim named \<open>gone\<close> does not exist
  (status 404) and the claim named \<open>broken\<close> makes the server fail (status 500). A
  created claim comes back as submitted, with no volume name. The only warning events
  are those of persistent volumes. The waiter polls every ten seconds.
\<close>

definition claimNamed :: "string \<Rightarrow> string \<Rightarrow> string \<Rightarrow> PersistentVolumeClaim" where
  "claimNamed namespace name phase =
     \<lparr>ObjectMeta = \<lparr>Name = name, Namespace = namespace, Labels = [], Annotations = []\<rparr>,
      Spec = \<lparr>AccessModes = [''ReadWriteOnce''], StorageClassName = None, VolumeName = ''''\<rparr>,
      Status = \<lparr>Phase = phase\<rparr>\<rparr>"

fun rawString :: "raw \<Rightarrow> string" where
  "rawString (RString v) = v"
| "rawString other = []"

definition provisioningFailed :: Event where
  "provisioningFailed =
     \<lparr>InvolvedObjectName = '''', Reason = ''ProvisioningFailed'',
      Message = ''no volume plugin matched'', LastTimestamp = 7\<rparr>"

definition cluster :: "nat env" where
  "cluster =
     \<lparr>pvc_Create = (\<lambda>namespace claim w. (Inr claim, Suc w)),
      pvc_Get = (\<lambda>namespace name w.
        if name = ''gone'' then (Inl (StatusError 404 ''not found''), Suc w)
        else if name = ''broken'' then (Inl (StatusError 500 ''internal error''), Suc w)
        else (Inr (claimNamed namespace name ''Lost''), Suc w)),
      pvc_Patch = (\<lambda>namespace name pt data w. (Inr (claimNamed namespace name ''Bound''), Suc w)),
      pvc_Delete = (\<lambda>namespace name w.
        if name = ''gone'' then (Some (StatusError 404 ''not found''), Suc w) else (None, Suc w)),
      getLastWarningsForObject = (\<lambda>m kind limit w.
        if kind = ''PersistentVolume'' then (Inr [provisioningFailed], Suc w) else (Inr [], Suc w)),
      stringifyEvents = concat \<circ> map (\<lambda>e. '' '' @ Reason e @ '': '' @ Message e),
      expandMetadata = (\<lambda>raws.
        case raws of
          name # namespace # rest \<Rightarrow>
            \<lparr>Name = rawString name, Namespace = rawString namespace, Labels = [], Annotations = []\<rparr>
        | _ \<Rightarrow> \<lparr>Name = [], Namespace = [], Labels = [], Annotations = []\<rparr>),
      expandPersistentVolumeClaimSpec = (\<lambda>raws.
        Inr \<lparr>AccessModes = [''ReadWriteOnce''], StorageClassName = None, VolumeName = ''''\<rparr>),
      flattenMetadata = (\<lambda>m d. [RString (Name m), RString (Namespace m)]),
      flattenPersistentVolumeClaimSpec = (\<lambda>sp. [RMap [(''volume_name'', RString (VolumeName sp))]]),
      SetError = (\<lambda>key v. None),
      patchMetadata = (\<lambda>keyPrefix pathPrefix d.
        [ReplaceOperation (pathPrefix @ ''labels'') (RMap [(''app'', RString ''db'')])]),
      MarshalJSON = (\<lambda>ops. Inr (concat (map Path ops))),
      polls_within = (\<lambda>tm. nat (tm div (10 * Second)))\<rparr>"

definition claimData :: "string \<Rightarrow> ResourceData" where
  "claimData name =
     \<lparr>ID = ''default/'' @ name,
      metadata = [RString name, RString ''default''],
      spec = [],
      wait_until_bound = True,
      timeouts_create = None\<rparr>"

definition session0 :: "nat session" where
  "session0 = \<lparr>calls = [], world = 0\<rparr>"

text \<open>The sessions that creating the claim \<open>data\<close> goes through on this cluster.\<close>

definition createdClaim :: PersistentVolumeClaim where
  "createdClaim = claimNamed ''default'' ''data'' ''''"

definition afterCreate :: "nat session" where
  "afterCreate = \<lparr>calls = [CreateCall ''default'' createdClaim], world = 1\<rparr>"

definition afterWait :: "nat session" where
  "afterWait =
     \<lparr>calls = [CreateCall ''default'' createdClaim,
               WaitCall [''Bound''] [''Pending''] (5 * Minute),
               GetCall ''default'' ''data''],
      world = 2\<rparr>"

definition afterClaimWarnings :: "nat session" where
  "afterClaimWarnings =
     \<lparr>calls = calls afterWait @ [WarningsCall (ObjectMeta createdClaim) ''PersistentVolumeClaim'' 3],
      world = 3\<rparr>"

definition afterVolumeWarnings :: "nat session" where
  "afterVolumeWarnings =
     \<lparr>calls = calls afterClaimWarnings
         @ [WarningsCall \<lparr>Name = '''', Namespace = '''', Labels = [], Annotations = []\<rparr>
              ''PersistentVolume'' 3],
      world = 4\<rparr>"

section \<open>Auxiliary facts\<close>

subsection \<open>Calls and sessions\<close>

lemma invoke_calls: "invoke c f s = (r, s') \<Longrightarrow> calls s' = calls s @ [c]"
  by (auto simp: invoke_def split: prod.splits)

lemma conn_Get_eq:
  "pvc_Get env namespace name (world s) = (r, w1) \<Longrightarrow>
   conn_Get env namespace name s = (r, \<lparr>calls = calls s @ [GetCall namespace name], world = w1\<rparr>)"
  by (simp add: conn_Get_def invoke_def)

lemma conn_Delete_eq:
  "pvc_Delete env namespace name (world s) = (r, w1) \<Longrightarrow>
   conn_Delete env namespace name s = (r, \<lparr>calls = calls s @ [DeleteCall namespace name], world = w1\<rparr>)"
  by (simp add: conn_Delete_def invoke_def)

lemma conn_Create_calls:
  "conn_Create env namespace claim s = (r, s1) \<Longrightarrow> calls s1 = calls s @ [CreateCall namespace claim]"
  by (auto simp: conn_Create_def dest: invoke_calls)

lemma conn_getLastWarningsForObject_calls:
  "conn_getLastWarningsForObject env m kind limit s = (r, s1)
    \<Longrightarrow> calls s1 = calls s @ [WarningsCall m kind limit]"
  by (auto simp: conn_getLastWarningsForObject_def dest: invoke_calls)

lemma read_calls:
  "idParts (ID d) = Inr (namespace, name) \<Longrightarrow>
   calls (snd (resourceKubernetesPersistentVolumeClaimRead env d s)) = calls s @ [GetCall namespace name]"
  by (auto simp: resourceKubernetesPersistentVolumeClaimRead_def conn_Get_def invoke_def
      split: prod.splits sum.splits)

lemma read_calls_gets:
  "\<exists>cs. calls (snd (resourceKubernetesPersistentVolumeClaimRead env d s)) = calls s @ cs
        \<and> (\<forall>c \<in> set cs. \<exists>namespace name. c = GetCall namespace name)"
proof (cases "idParts (ID d)")
  case (Inl err)
  then have "calls (snd (resourceKubernetesPersistentVolumeClaimRead env d s)) = calls s @ []"
    by (simp add: resourceKubernetesPersistentVolumeClaimRead_def)
  then show ?thesis by fastforce
next
  case (Inr p)
  then obtain namespace name where "idParts (ID d) = Inr (namespace, name)"
    by (cases p) simp
  then have "calls (snd (resourceKubernetesPersistentVolumeClaimRead env d s))
      = calls s @ [GetCall namespace name]"
    by (rule read_calls)
  then show ?thesis by fastforce
qed

subsection \<open>The identity codec\<close>

lemma split_on_no_delim: "c \<notin> set xs \<Longrightarrow> split_on c xs = [xs]"
  by (induction xs) auto

lemma split_on_append: "c \<notin> set xs \<Longrightarrow> split_on c (xs @ c # ys) = xs # split_on c ys"
  by (induction xs) auto

lemma idParts_buildId:
  "CHR ''/'' \<notin> set (Namespace m) \<Longrightarrow> CHR ''/'' \<notin> set (Name m)
    \<Longrightarrow> idParts (buildId m) = Inr (Namespace m, Name m)"
  by (simp add: idParts_def buildId_def split_on_append split_on_no_delim)

lemma buildId_nonempty: "buildId m \<noteq> []"
  by (simp add: buildId_def)

subsection \<open>The waiter\<close>

lemma refreshClaim_calls:
  "refreshClaim env namespace name s = (r, s') \<Longrightarrow> calls s' = calls s @ [GetCall namespace name]"
  by (auto simp: refreshClaim_def conn_Get_def split: prod.splits sum.splits dest: invoke_calls)

lemma refreshClaim_phase:
  "refreshClaim env namespace name s = (Inr (obs, phase), s') \<Longrightarrow> phase = Phase (Status obs)"
  by (auto simp: refreshClaim_def split: prod.splits sum.splits)

lemma poll_calls:
  "poll n conf last_phase s = (r, s') \<Longrightarrow> Refresh conf = refreshClaim env namespace name
    \<Longrightarrow> \<exists>k. calls s' = calls s @ replicate k (GetCall namespace name)"
proof (induction n arbitrary: last_phase s)
  case 0
  then have "calls s' = calls s @ replicate 0 (GetCall namespace name)" by simp
  then show ?case by blast
next
  case (Suc n)
  obtain q s1 where q: "refreshClaim env namespace name s = (q, s1)"
    by (cases "refreshClaim env namespace name s")
  have c1: "calls s1 = calls s @ [GetCall namespace name]"
    using q by (rule refreshClaim_calls)
  show ?case
  proof (cases "\<exists>obs phase. q = Inr (obs, phase) \<and> phase \<notin> set (Target conf) \<and> phase \<in> set (Pending conf)")
    case True
    then obtain obs phase where p: "q = Inr (obs, phase)" "phase \<notin> set (Target conf)"
      "phase \<in> set (Pending conf)" by blast
    have "poll n conf phase s1 = (r, s')"
      using Suc.prems q p by simp
    then obtain k where "calls s' = calls s1 @ replicate k (GetCall namespace name)"
      using Suc.IH Suc.prems(2) by blast
    then have "calls s' = calls s @ replicate (Suc k) (GetCall namespace name)"
      using c1 by simp
    then show ?thesis by blast
  next
    case False
    then have "s' = s1"
      using Suc.prems q by (auto split: sum.splits if_splits)
    then have "calls s' = calls s @ replicate 1 (GetCall namespace name)"
      using c1 by simp
    then show ?thesis by blast
  qed
qed

lemma poll_success_phase:
  "poll n conf last_phase s = (Inr obs, s') \<Longrightarrow> Refresh conf = refreshClaim env namespace name
    \<Longrightarrow> Phase (Status obs) \<in> set (Target conf)"
proof (induction n arbitrary: last_phase s)
  case 0
  then show ?case by simp
next
  case (Suc n)
  obtain q s1 where q: "refreshClaim env namespace name s = (q, s1)"
    by (cases "refreshClaim env namespace name s")
  show ?case
  proof (cases q)
    case (Inl err)
    then show ?thesis using Suc.prems q by simp
  next
    case (Inr p)
    obtain ob phase where p: "p = (ob, phase)" by (cases p)
    have ph: "phase = Phase (Status ob)"
      using q Inr p by (auto dest: refreshClaim_phase)
    show ?thesis
      using Suc.prems Suc.IH q Inr p ph by (auto split: if_splits)
  qed
qed

lemma WaitForState_calls:
  assumes "WaitForState polls (stateConf env d m name) s = (r, s')"
  shows "\<exists>k. calls s' = calls s @ WaitCall [''Bound''] [''Pending''] (d_Timeout d)
                 # replicate k (GetCall (Namespace m) name)"
proof -
  let ?conf = "stateConf env d m name"
  let ?s0 = "s\<lparr>calls := calls s @ [WaitCall (Target ?conf) (Pending ?conf) (Timeout ?conf)]\<rparr>"
  have p: "poll (polls (Timeout ?conf)) ?conf '''' ?s0 = (r, s')"
    using assms by (simp add: WaitForState_def)
  have rf: "Refresh ?conf = refreshClaim env (Namespace m) name"
    by (simp add: stateConf_def)
  obtain k where "calls s' = calls ?s0 @ replicate k (GetCall (Namespace m) name)"
    using poll_calls [OF p rf] by blast
  then have "calls s' = calls s @ WaitCall [''Bound''] [''Pending''] (d_Timeout d)
                 # replicate k (GetCall (Namespace m) name)"
    by (simp add: stateConf_def)
  then show ?thesis by blast
qed

subsection \<open>Create, after the wait\<close>

lemma create_after_failed_wait:
  fixes env :: "'w env" and d :: ResourceData and out :: PersistentVolumeClaim
  defines "m \<equiv> expandMetadata env (metadata d)"
    and "d1 \<equiv> d\<lparr>ID := buildId (ObjectMeta out)\<rparr>"
  assumes "expandPersistentVolumeClaimSpec env (spec d) = Inr sp"
    and "conn_Create env (Namespace m) \<lparr>ObjectMeta = m, Spec = sp, Status = \<lparr>Phase = ''''\<rparr>\<rparr> s
           = (Inr out, s1)"
    and "wait_until_bound d"
    and "WaitForState (polls_within env) (stateConf env d1 m (Name (ObjectMeta out))) s1 = (Inl err, s2)"
  shows "resourceKubernetesPersistentVolumeClaimCreate env d s =
     (case conn_getLastWarningsForObject env (ObjectMeta out) ''PersistentVolumeClaim'' 3 s2 of
        (Inl wErr, s3) \<Rightarrow> ((Some wErr, d1), s3)
      | (Inr lastWarnings, s3) \<Rightarrow>
          if lastWarnings = [] then
            (case conn_getLastWarningsForObject env
                    \<lparr>Name = VolumeName (Spec out), Namespace = '''', Labels = [], Annotations = []\<rparr>
                    ''PersistentVolume'' 3 s3 of
               (Inl wErr, s4) \<Rightarrow> ((Some wErr, d1), s4)
             | (Inr relatedWarnings, s4) \<Rightarrow>
                 ((Some (ErrorString (Error err @ stringifyEvents env relatedWarnings)), d1), s4))
          else ((Some (ErrorString (Error err @ stringifyEvents env lastWarnings)), d1), s3))"
  using assms(3-) unfolding m_def d1_def
  by (simp add: resourceKubernetesPersistentVolumeClaimCreate_def Let_def split: prod.splits sum.splits)

lemma create_after_successful_wait:
  fixes env :: "'w env" and d :: ResourceData and out :: PersistentVolumeClaim
  defines "m \<equiv> expandMetadata env (metadata d)"
    and "d1 \<equiv> d\<lparr>ID := buildId (ObjectMeta out)\<rparr>"
  assumes "expandPersistentVolumeClaimSpec env (spec d) = Inr sp"
    and "conn_Create env (Namespace m) \<lparr>ObjectMeta = m, Spec = sp, Status = \<lparr>Phase = ''''\<rparr>\<rparr> s
           = (Inr out, s1)"
    and "wait_until_bound d"
    and "WaitForState (polls_within env) (stateConf env d1 m (Name (ObjectMeta out))) s1 = (Inr bound, s2)"
  shows "resourceKubernetesPersistentVolumeClaimCreate env d s =
     resourceKubernetesPersistentVolumeClaimRead env d1 s2"
  using assms(3-) unfolding m_def d1_def
  by (simp add: resourceKubernetesPersistentVolumeClaimCreate_def Let_def)

lemma create_calls_extend_wait:
  fixes env :: "'w env" and d :: ResourceData and out :: PersistentVolumeClaim
  defines "m \<equiv> expandMetadata env (metadata d)"
    and "d1 \<equiv> d\<lparr>ID := buildId (ObjectMeta out)\<rparr>"
  assumes "expandPersistentVolumeClaimSpec env (spec d) = Inr sp"
    and "conn_Create env (Namespace m) \<lparr>ObjectMeta = m, Spec = sp, Status = \<lparr>Phase = ''''\<rparr>\<rparr> s
           = (Inr out, s1)"
    and "wait_until_bound d"
    and "WaitForState (polls_within env) (stateConf env d1 m (Name (ObjectMeta out))) s1 = (r, s2)"
  shows "\<exists>cs. calls (snd (resourceKubernetesPersistentVolumeClaimCreate env d s)) = calls s2 @ cs"
proof (cases r)
  case (Inl err)
  let ?volume = "\<lparr>Name = VolumeName (Spec out), Namespace = '''', Labels = [], Annotations = []\<rparr>"
  note w = assms(6) [unfolded Inl m_def d1_def]
  note unfolded = create_after_failed_wait [OF assms(3-5) [unfolded m_def] w]
  obtain r1 s3 where q1:
    "conn_getLastWarningsForObject env (ObjectMeta out) ''PersistentVolumeClaim'' 3 s2 = (r1, s3)"
    by (cases "conn_getLastWarningsForObject env (ObjectMeta out) ''PersistentVolumeClaim'' 3 s2")
  obtain r2 s4 where q2: "conn_getLastWarningsForObject env ?volume ''PersistentVolume'' 3 s3 = (r2, s4)"
    by (cases "conn_getLastWarningsForObject env ?volume ''PersistentVolume'' 3 s3")
  have c3: "calls s3 = calls s2 @ [WarningsCall (ObjectMeta out) ''PersistentVolumeClaim'' 3]"
    using q1 by (rule conn_getLastWarningsForObject_calls)
  have c4: "calls s4 = calls s3 @ [WarningsCall ?volume ''PersistentVolume'' 3]"
    using q2 by (rule conn_getLastWarningsForObject_calls)
  have "snd (resourceKubernetesPersistentVolumeClaimCreate env d s) = s3
      \<or> snd (resourceKubernetesPersistentVolumeClaimCreate env d s) = s4"
    using q1 q2 unfolding unfolded by (auto split: sum.splits)
  then show ?thesis
    using c3 c4 by auto
next
  case (Inr bound)
  note w = assms(6) [unfolded Inr m_def d1_def]
  note unfolded = create_after_successful_wait [OF assms(3-5) [unfolded m_def] w]
  show ?thesis
    unfolding unfolded using read_calls_gets by blast
qed

subsection \<open>Running the example cluster\<close>

lemmas cluster_simps =
  cluster_def claimData_def session0_def claimNamed_def provisioningFailed_def
  invoke_def conn_Create_def conn_Get_def conn_Patch_def conn_Delete_def
  conn_getLastWarningsForObject_def idParts_def buildId_def d_Set_def
  refreshClaim_def stateConf_def WaitForState_def d_Timeout_def
  resourceKubernetesPersistentVolumeClaim_Timeouts_def DefaultTimeout_def
  Minute_def Second_def JSONPatchType_def

lemmas cluster_sessions =
  createdClaim_def afterCreate_def afterWait_def afterClaimWarnings_def afterVolumeWarnings_def

lemma poll_numeral:
  "poll (numeral k) conf last_phase s =
     (case Refresh conf s of
        (Inl err, s1) \<Rightarrow> (Inl err, s1)
      | (Inr (observation, phase), s1) \<Rightarrow>
          if phase \<in> set (Target conf) then (Inr observation, s1)
          else if phase \<in> set (Pending conf) then poll (pred_numeral k) conf phase s1
          else (Inl (UnexpectedStateError phase), s1))"
  by (simp only: numeral_eq_Suc poll.simps)

lemma cluster_expand:
  "expandPersistentVolumeClaimSpec cluster (spec (claimData ''data'')) = Inr (Spec createdClaim)"
  by (simp add: cluster_simps cluster_sessions)

lemma cluster_create:
  "conn_Create cluster (Namespace (expandMetadata cluster (metadata (claimData ''data''))))
     \<lparr>ObjectMeta = expandMetadata cluster (metadata (claimData ''data'')),
      Spec = Spec createdClaim, Status = \<lparr>Phase = ''''\<rparr>\<rparr> session0
   = (Inr createdClaim, afterCreate)"
  by (simp add: cluster_simps cluster_sessions)

lemma cluster_flag: "wait_until_bound (claimData ''data'')"
  by (simp add: claimData_def)

lemma cluster_wait:
  "WaitForState (polls_within cluster)
     (stateConf cluster ((claimData ''data'')\<lparr>ID := buildId (ObjectMeta createdClaim)\<rparr>)
        (expandMetadata cluster (metadata (claimData ''data''))) (Name (ObjectMeta createdClaim)))
     afterCreate
   = (Inl (UnexpectedStateError ''Lost''), afterWait)"
  by (simp add: cluster_simps cluster_sessions poll_numeral)

lemma cluster_claim_warnings:
  "conn_getLastWarningsForObject cluster (ObjectMeta createdClaim) ''PersistentVolumeClaim'' 3 afterWait
   = (Inr [], afterClaimWarnings)"
  by (simp add: cluster_simps cluster_sessions)

lemma cluster_volume_warnings:
  "conn_getLastWarningsForObject cluster
     \<lparr>Name = VolumeName (Spec createdClaim), Namespace = '''', Labels = [], Annotations = []\<rparr>
     ''PersistentVolume'' 3 afterClaimWarnings
   = (Inr [provisioningFailed], afterVolumeWarnings)"
  by (simp add: cluster_simps cluster_sessions)

section \<open>Properties of the lifecycle operations\<close>

subsection \<open>Delete\<close>

text \<open>
  C1 (as amended). \<^verbatim>\<open>Delete\<close> has no branch for a missing object. Whatever the remote
  Delete call reports is what \<^verbatim>\<open>Delete\<close> returns: an error, \<open>NotFound\<close> included, is
  returned unchanged and the local identity stays as it was; only when the remote call
  reports no error does \<^verbatim>\<open>Delete\<close> succeed and clear the local identity.
\<close>

theorem delete_returns_remote_error:
  assumes "idParts (ID d) = Inr (namespace, name)"
    and "pvc_Delete env namespace name (world s) = (r, w1)"
  shows "fst (resourceKubernetesPersistentVolumeClaimDelete env d s)
      = (case r of Some err \<Rightarrow> (Some err, d) | None \<Rightarrow> (None, d\<lparr>ID := ''''\<rparr>))"
  using assms
  by (auto simp: resourceKubernetesPersistentVolumeClaimDelete_def conn_Delete_eq split: option.splits)

theorem delete_returns_remote_error_witness:
  "fst (resourceKubernetesPersistentVolumeClaimDelete cluster (claimData ''gone'') session0)
     = (Some (StatusError 404 ''not found''), claimData ''gone'')
   \<and> fst (resourceKubernetesPersistentVolumeClaimDelete cluster (claimData ''data'') session0)
     = (None, (claimData ''data'')\<lparr>ID := ''''\<rparr>)"
proof -
  have i1: "idParts (ID (claimData ''gone'')) = Inr (''default'', ''gone'')"
    and i2: "idParts (ID (claimData ''data'')) = Inr (''default'', ''data'')"
    by (simp_all add: claimData_def idParts_def)
  have r1: "pvc_Delete cluster ''default'' ''gone'' (world session0)
              = (Some (StatusError 404 ''not found''), 1)"
    and r2: "pvc_Delete cluster ''default'' ''data'' (world session0) = (None, 1)"
    by (simp_all add: cluster_def session0_def)
  show ?thesis
    using delete_returns_remote_error [OF i1 r1] delete_returns_remote_error [OF i2 r2]
    by simp
qed

text \<open>
  C1 as stated fails: the remote Delete of the claim \<open>default/gone\<close> reports status 404,
  and \<^verbatim>\<open>Delete\<close> returns that error and leaves the identity \<open>default/gone\<close> in place.
\<close>

theorem delete_not_found_counterexample:
  "pvc_Delete cluster ''default'' ''gone'' (world session0) = (Some (StatusError 404 ''not found''), 1)
   \<and> fst (resourceKubernetesPersistentVolumeClaimDelete cluster (claimData ''gone'') session0)
       = (Some (StatusError 404 ''not found''), claimData ''gone'')
   \<and> ID (claimData ''gone'') = ''default/gone''"
  by (simp add: resourceKubernetesPersistentVolumeClaimDelete_def cluster_simps)

subsection \<open>Exists\<close>

text \<open>
  C3. Once the identity decodes, the probe answers from the remote Get: \<open>(true, nil)\<close>
  when the Get succeeds, \<open>(false, nil)\<close> when it fails with a status error of code 404,
  and any other error is returned unchanged.
\<close>

theorem exists_probe:
  assumes "idParts (ID d) = Inr (namespace, name)"
    and "pvc_Get env namespace name (world s) = (r, w1)"
  shows "(\<forall>claim. r = Inr claim \<longrightarrow>
            fst (resourceKubernetesPersistentVolumeClaimExists env d s) = (True, None))
       \<and> (\<forall>message. r = Inl (StatusError 404 message) \<longrightarrow>
            fst (resourceKubernetesPersistentVolumeClaimExists env d s) = (False, None))
       \<and> (\<forall>err. r = Inl err \<longrightarrow> (\<forall>message. err \<noteq> StatusError 404 message) \<longrightarrow>
            snd (fst (resourceKubernetesPersistentVolumeClaimExists env d s)) = Some err)"
  using assms
  by (auto simp: resourceKubernetesPersistentVolumeClaimExists_def conn_Get_eq split: error.splits)

theorem exists_probe_witness:
  "fst (resourceKubernetesPersistentVolumeClaimExists cluster (claimData ''data'') session0) = (True, None)
   \<and> fst (resourceKubernetesPersistentVolumeClaimExists cluster (claimData ''gone'') session0) = (False, None)
   \<and> snd (fst (resourceKubernetesPersistentVolumeClaimExists cluster (claimData ''broken'') session0))
       = Some (StatusError 500 ''internal error'')"
proof -
  have i1: "idParts (ID (claimData ''data'')) = Inr (''default'', ''data'')"
    and i2: "idParts (ID (claimData ''gone'')) = Inr (''default'', ''gone'')"
    and i3: "idParts (ID (claimData ''broken'')) = Inr (''default'', ''broken'')"
    by (simp_all add: claimData_def idParts_def)
  have g1: "pvc_Get cluster ''default'' ''data'' (world session0)
              = (Inr (claimNamed ''default'' ''data'' ''Lost''), 1)"
    and g2: "pvc_Get cluster ''default'' ''gone'' (world session0)
              = (Inl (StatusError 404 ''not found''), 1)"
    and g3: "pvc_Get cluster ''default'' ''broken'' (world session0)
              = (Inl (StatusError 500 ''internal error''), 1)"
    by (simp_all add: cluster_def session0_def)
  show ?thesis
    using exists_probe [OF i1 g1] exists_probe [OF i2 g2] exists_probe [OF i3 g3]
    by simp
qed

text \<open>
  C10. When the remote Get of the probe fails with any error that is not a status error
  of code 404 (a status error of another code, or an error of another kind), the
  boolean returned with the error is \<open>true\<close>.
\<close>

theorem exists_error_flag_is_true:
  assumes "idParts (ID d) = Inr (namespace, name)"
    and "pvc_Get env namespace name (world s) = (Inl err, w1)"
    and "\<forall>message. err \<noteq> StatusError 404 message"
  shows "fst (resourceKubernetesPersistentVolumeClaimExists env d s) = (True, Some err)"
  using assms
  by (auto simp: resourceKubernetesPersistentVolumeClaimExists_def conn_Get_eq split: error.splits)

theorem exists_error_flag_is_true_witness:
  "fst (resourceKubernetesPersistentVolumeClaimExists cluster (claimData ''broken'') session0)
     = (True, Some (StatusError 500 ''internal error''))"
proof -
  have i: "idParts (ID (claimData ''broken'')) = Inr (''default'', ''broken'')"
    by (simp add: claimData_def idParts_def)
  have g: "pvc_Get cluster ''default'' ''broken'' (world session0)
             = (Inl (StatusError 500 ''internal error''), 1)"
    by (simp add: cluster_def session0_def)
  have n: "\<forall>message. StatusError 500 ''internal error'' \<noteq> StatusError 404 message"
    by simp
  show ?thesis
    using exists_error_flag_is_true [OF i g n] .
qed

subsection \<open>Import\<close>

text \<open>
  C9. For every resource data handed to the importer, whatever its identity string, the
  import succeeds with that one resource data, its flag \<open>wait_until_bound\<close> set to true
  and its identity untouched, and the session is unchanged: no call is made and the
  cluster is not asked anything.
\<close>

theorem import_seeds_wait_flag:
  "fst (Importer_State env d s) = Inr [d\<lparr>wait_until_bound := True\<rparr>]
   \<and> wait_until_bound (d\<lparr>wait_until_bound := True\<rparr>)
   \<and> ID (d\<lparr>wait_until_bound := True\<rparr>) = ID d
   \<and> snd (Importer_State env d s) = s"
  by (simp add: Importer_State_def)

subsection \<open>Update\<close>

text \<open>
  C8. \<^verbatim>\<open>Update\<close> sends at most one patch, whose document is the marshalled result of
  \<^verbatim>\<open>patchMetadata\<close> for the key prefix \<open>metadata.0.\<close> and the path prefix \<open>/metadata/\<close>, and
  nothing else; provided \<^verbatim>\<open>patchMetadata\<close> keeps its operations under the path prefix it
  is given, every operation of the document lies under \<open>/metadata/\<close> and none under
  \<open>/spec\<close>. After a successful patch \<^verbatim>\<open>Update\<close> is a \<^verbatim>\<open>Read\<close>; it returns the error of a
  failed patch. The calls of \<^verbatim>\<open>Update\<close> are that patch and the Get of the \<^verbatim>\<open>Read\<close>:
  no convergence wait is started.
\<close>

theorem update_patches_metadata_only:
  fixes env :: "'w env" and d :: ResourceData
  defines "ops \<equiv> patchMetadata env ''metadata.0.'' ''/metadata/'' d"
  assumes "idParts (ID d) = Inr (namespace, name)"
  shows "(\<exists>cs. calls (snd (resourceKubernetesPersistentVolumeClaimUpdate env d s)) = calls s @ cs
            \<and> (\<forall>c \<in> set cs. c = GetCall namespace name
                  \<or> (\<exists>data. MarshalJSON env ops = Inr data
                         \<and> c = PatchCall namespace name JSONPatchType data))
            \<and> (\<forall>target pending tm. WaitCall target pending tm \<notin> set cs))
     \<and> (\<forall>data r s1. MarshalJSON env ops = Inr data
           \<longrightarrow> conn_Patch env namespace name JSONPatchType data s = (r, s1)
           \<longrightarrow> resourceKubernetesPersistentVolumeClaimUpdate env d s
               = (case r of
                    Inl err \<Rightarrow> ((Some err, d), s1)
                  | Inr out \<Rightarrow> resourceKubernetesPersistentVolumeClaimRead env d s1))
     \<and> ((\<forall>keyPrefix pathPrefix. \<forall>op \<in> set (patchMetadata env keyPrefix pathPrefix d).
             prefix pathPrefix (Path op))
           \<longrightarrow> (\<forall>op \<in> set ops. prefix ''/metadata/'' (Path op) \<and> \<not> prefix ''/spec'' (Path op)))"
proof -
  let ?update = "resourceKubernetesPersistentVolumeClaimUpdate env d s"
  have after_patch: "\<forall>data r s1. MarshalJSON env ops = Inr data
      \<longrightarrow> conn_Patch env namespace name JSONPatchType data s = (r, s1)
      \<longrightarrow> ?update = (case r of
             Inl err \<Rightarrow> ((Some err, d), s1)
           | Inr out \<Rightarrow> resourceKubernetesPersistentVolumeClaimRead env d s1)"
    using assms(2)
    by (auto simp: resourceKubernetesPersistentVolumeClaimUpdate_def ops_def Let_def split: sum.splits)
  have trace: "\<exists>cs. calls (snd ?update) = calls s @ cs
      \<and> (\<forall>c \<in> set cs. c = GetCall namespace name
            \<or> (\<exists>data. MarshalJSON env ops = Inr data
                   \<and> c = PatchCall namespace name JSONPatchType data))
      \<and> (\<forall>target pending tm. WaitCall target pending tm \<notin> set cs)"
  proof (cases "MarshalJSON env ops")
    case (Inl err)
    then have "calls (snd ?update) = calls s @ []"
      using assms(2)
      by (simp add: resourceKubernetesPersistentVolumeClaimUpdate_def ops_def Let_def)
    then show ?thesis by fastforce
  next
    case (Inr data)
    obtain r s1 where p: "conn_Patch env namespace name JSONPatchType data s = (r, s1)"
      by (cases "conn_Patch env namespace name JSONPatchType data s")
    have c1: "calls s1 = calls s @ [PatchCall namespace name JSONPatchType data]"
      using p by (auto simp: conn_Patch_def dest: invoke_calls)
    have u: "?update = (case r of
             Inl err \<Rightarrow> ((Some err, d), s1)
           | Inr out \<Rightarrow> resourceKubernetesPersistentVolumeClaimRead env d s1)"
      using after_patch Inr p by blast
    show ?thesis
    proof (cases r)
      case (Inl err)
      then have "calls (snd ?update) = calls s @ [PatchCall namespace name JSONPatchType data]"
        using u c1 by simp
      then show ?thesis using Inr by fastforce
    next
      case (Inr out)
      then have "calls (snd ?update)
          = calls s @ [PatchCall namespace name JSONPatchType data, GetCall namespace name]"
        using u c1 read_calls [OF assms(2), of env s1] by simp
      then show ?thesis using \<open>MarshalJSON env ops = Inr data\<close> by fastforce
    qed
  qed
  have paths: "(\<forall>keyPrefix pathPrefix. \<forall>op \<in> set (patchMetadata env keyPrefix pathPrefix d).
        prefix pathPrefix (Path op))
      \<longrightarrow> (\<forall>op \<in> set ops. prefix ''/metadata/'' (Path op) \<and> \<not> prefix ''/spec'' (Path op))"
  proof (intro impI ballI)
    fix op
    assume contract: "\<forall>keyPrefix pathPrefix. \<forall>op \<in> set (patchMetadata env keyPrefix pathPrefix d).
        prefix pathPrefix (Path op)"
      and "op \<in> set ops"
    then have "prefix ''/metadata/'' (Path op)"
      unfolding ops_def by blast
    then obtain rest where "Path op = ''/metadata/'' @ rest"
      by (auto simp: prefix_def)
    then show "prefix ''/metadata/'' (Path op) \<and> \<not> prefix ''/spec'' (Path op)"
      by (simp add: prefix_def)
  qed
  show ?thesis
    using trace after_patch paths by blast
qed

theorem update_patches_metadata_only_witness:
  "resourceKubernetesPersistentVolumeClaimUpdate cluster (claimData ''data'') session0
     = resourceKubernetesPersistentVolumeClaimRead cluster (claimData ''data'')
         \<lparr>calls = [PatchCall ''default'' ''data'' JSONPatchType ''/metadata/labels''], world = 1\<rparr>
   \<and> map (\<lambda>op. prefix ''/metadata/'' (Path op) \<and> \<not> prefix ''/spec'' (Path op))
         (patchMetadata cluster ''metadata.0.'' ''/metadata/'' (claimData ''data'')) = [True]"
proof -
  have i: "idParts (ID (claimData ''data'')) = Inr (''default'', ''data'')"
    by (simp add: claimData_def idParts_def)
  have marshal: "MarshalJSON cluster (patchMetadata cluster ''metadata.0.'' ''/metadata/'' (claimData ''data''))
      = Inr ''/metadata/labels''"
    by (simp add: cluster_def)
  have patch: "conn_Patch cluster ''default'' ''data'' JSONPatchType ''/metadata/labels'' session0
      = (Inr (claimNamed ''default'' ''data'' ''Bound''),
         \<lparr>calls = [PatchCall ''default'' ''data'' JSONPatchType ''/metadata/labels''], world = 1\<rparr>)"
    by (simp add: cluster_def conn_Patch_def invoke_def session0_def)
  have contract: "\<forall>keyPrefix pathPrefix.
      \<forall>op \<in> set (patchMetadata cluster keyPrefix pathPrefix (claimData ''data'')).
        prefix pathPrefix (Path op)"
    by (simp add: cluster_def)
  show ?thesis
    using update_patches_metadata_only [OF i, of cluster session0] marshal patch contract
    by (simp add: cluster_def del: prefix_code)
qed

subsection \<open>Create\<close>

text \<open>
  The theorems on \<^verbatim>\<open>Create\<close> share their premises: the specification of the claim
  expands, the creation request is answered with the object \<open>out\<close> in session \<open>s1\<close>,
  and the flag \<open>wait_until_bound\<close> is set. Those about a failed wait add that the wait
  ends with the error \<open>err\<close> in session \<open>s2\<close>.
\<close>

text \<open>
  C4. When the creation request succeeds and the flag \<open>wait_until_bound\<close> is set,
  \<^verbatim>\<open>Create\<close> starts the convergence wait right after the creation call, with target
  states exactly \<open>Bound\<close>, pending states exactly \<open>Pending\<close> (the configuration has no
  other field for states) and, as deadline, the configured create timeout or else 5
  minutes. In that wait a poll that observes a phase other than \<open>Bound\<close> and \<open>Pending\<close>
  ends it with an unexpected-state error; the wait succeeds only on an observation in
  phase \<open>Bound\<close>; and when the wait fails, \<^verbatim>\<open>Create\<close> fails.
\<close>

theorem create_waits_for_bound:
  fixes env :: "'w env" and d :: ResourceData and out :: PersistentVolumeClaim
  defines "m \<equiv> expandMetadata env (metadata d)"
    and "conf \<equiv> stateConf env (d\<lparr>ID := buildId (ObjectMeta out)\<rparr>)
                  (expandMetadata env (metadata d)) (Name (ObjectMeta out))"
  assumes "expandPersistentVolumeClaimSpec env (spec d) = Inr sp"
    and "conn_Create env (Namespace m) \<lparr>ObjectMeta = m, Spec = sp, Status = \<lparr>Phase = ''''\<rparr>\<rparr> s
           = (Inr out, s1)"
    and "wait_until_bound d"
  shows "Target conf = [''Bound''] \<and> Pending conf = [''Pending'']
     \<and> Timeout conf = (case timeouts_create d of Some tm \<Rightarrow> tm | None \<Rightarrow> 5 * Minute)
     \<and> (\<exists>rest. calls (snd (resourceKubernetesPersistentVolumeClaimCreate env d s))
            = calls s1 @ WaitCall [''Bound''] [''Pending''] (Timeout conf) # rest)
     \<and> (\<forall>n last_phase t obs phase t'.
           Refresh conf t = (Inr (obs, phase), t') \<longrightarrow> phase \<notin> {''Bound'', ''Pending''}
           \<longrightarrow> poll (Suc n) conf last_phase t = (Inl (UnexpectedStateError phase), t'))
     \<and> (\<forall>obs s2. WaitForState (polls_within env) conf s1 = (Inr obs, s2)
           \<longrightarrow> Phase (Status obs) = ''Bound'')
     \<and> (\<forall>err s2. WaitForState (polls_within env) conf s1 = (Inl err, s2)
           \<longrightarrow> fst (fst (resourceKubernetesPersistentVolumeClaimCreate env d s)) \<noteq> None)"
proof -
  let ?create = "resourceKubernetesPersistentVolumeClaimCreate env d s"
  let ?d1 = "d\<lparr>ID := buildId (ObjectMeta out)\<rparr>"
  have sets: "Target conf = [''Bound'']" "Pending conf = [''Pending'']"
    by (simp_all add: conf_def stateConf_def)
  have deadline: "Timeout conf = (case timeouts_create d of Some tm \<Rightarrow> tm | None \<Rightarrow> 5 * Minute)"
    by (simp add: conf_def stateConf_def d_Timeout_def
        resourceKubernetesPersistentVolumeClaim_Timeouts_def DefaultTimeout_def split: option.splits)
  have timeout: "Timeout conf = d_Timeout ?d1"
    by (simp add: conf_def stateConf_def)
  have invoked: "\<exists>rest. calls (snd ?create)
      = calls s1 @ WaitCall [''Bound''] [''Pending''] (Timeout conf) # rest"
  proof -
    obtain r s2 where w: "WaitForState (polls_within env) conf s1 = (r, s2)"
      by (cases "WaitForState (polls_within env) conf s1")
    obtain k where c2: "calls s2 = calls s1 @ WaitCall [''Bound''] [''Pending''] (d_Timeout ?d1)
        # replicate k (GetCall (Namespace (expandMetadata env (metadata d))) (Name (ObjectMeta out)))"
      using WaitForState_calls [OF w [unfolded conf_def]] by blast
    obtain cs where "calls (snd ?create) = calls s2 @ cs"
      using create_calls_extend_wait [OF assms(3-5) [unfolded m_def] w [unfolded conf_def]] by blast
    then have "calls (snd ?create) = calls s1 @ WaitCall [''Bound''] [''Pending''] (Timeout conf)
        # (replicate k (GetCall (Namespace (expandMetadata env (metadata d))) (Name (ObjectMeta out))) @ cs)"
      using c2 timeout by simp
    then show ?thesis by blast
  qed
  have unexpected: "\<forall>n last_phase t obs phase t'.
      Refresh conf t = (Inr (obs, phase), t') \<longrightarrow> phase \<notin> {''Bound'', ''Pending''}
      \<longrightarrow> poll (Suc n) conf last_phase t = (Inl (UnexpectedStateError phase), t')"
    using sets by simp
  have bound: "\<forall>obs s2. WaitForState (polls_within env) conf s1 = (Inr obs, s2)
      \<longrightarrow> Phase (Status obs) = ''Bound''"
  proof (intro allI impI)
    fix obs s2
    assume "WaitForState (polls_within env) conf s1 = (Inr obs, s2)"
    then have p: "poll (polls_within env (Timeout conf)) conf ''''
        (s1\<lparr>calls := calls s1 @ [WaitCall (Target conf) (Pending conf) (Timeout conf)]\<rparr>)
        = (Inr obs, s2)"
      by (simp add: WaitForState_def)
    have rf: "Refresh conf = refreshClaim env (Namespace (expandMetadata env (metadata d)))
        (Name (ObjectMeta out))"
      by (simp add: conf_def stateConf_def)
    have "Phase (Status obs) \<in> set (Target conf)"
      using p rf by (rule poll_success_phase)
    then show "Phase (Status obs) = ''Bound''"
      using sets by simp
  qed
  have fails: "\<forall>err s2. WaitForState (polls_within env) conf s1 = (Inl err, s2)
      \<longrightarrow> fst (fst ?create) \<noteq> None"
  proof (intro allI impI)
    fix err s2
    assume w: "WaitForState (polls_within env) conf s1 = (Inl err, s2)"
    note unfolded = create_after_failed_wait [OF assms(3-5) [unfolded m_def] w [unfolded conf_def]]
    show "fst (fst ?create) \<noteq> None"
      unfolding unfolded by (auto split: prod.splits sum.splits)
  qed
  show ?thesis
    using sets deadline invoked unexpected bound fails by blast
qed

theorem create_waits_for_bound_witness:
  "(\<exists>rest. calls (snd (resourceKubernetesPersistentVolumeClaimCreate cluster (claimData ''data'') session0))
       = calls afterCreate @ WaitCall [''Bound''] [''Pending''] (5 * Minute) # rest)
   \<and> poll (Suc 0)
        (stateConf cluster ((claimData ''data'')\<lparr>ID := buildId (ObjectMeta createdClaim)\<rparr>)
           (expandMetadata cluster (metadata (claimData ''data''))) (Name (ObjectMeta createdClaim)))
        '''' afterCreate
      = (Inl (UnexpectedStateError ''Lost''),
         \<lparr>calls = [CreateCall ''default'' createdClaim, GetCall ''default'' ''data''], world = 2\<rparr>)
   \<and> fst (fst (resourceKubernetesPersistentVolumeClaimCreate cluster (claimData ''data'') session0)) \<noteq> None"
proof -
  let ?conf = "stateConf cluster ((claimData ''data'')\<lparr>ID := buildId (ObjectMeta createdClaim)\<rparr>)
    (expandMetadata cluster (metadata (claimData ''data''))) (Name (ObjectMeta createdClaim))"
  note facts = create_waits_for_bound [OF cluster_expand cluster_create cluster_flag]
  have deadline: "Timeout ?conf = 5 * Minute"
    using facts by (simp add: claimData_def)
  have refresh: "Refresh ?conf afterCreate
      = (Inr (claimNamed ''default'' ''data'' ''Lost'', ''Lost''),
         \<lparr>calls = [CreateCall ''default'' createdClaim, GetCall ''default'' ''data''], world = 2\<rparr>)"
    by (simp add: cluster_simps cluster_sessions)
  have lost: "''Lost'' \<notin> {''Bound'', ''Pending''}"
    by simp
  show ?thesis
    using facts deadline refresh lost cluster_wait by metis
qed

text \<open>
  C2 (as amended). When the wait fails and the claim has no warning events, the events
  of the backing volume are always queried, under the volume name of the creation
  response, whether or not that name is empty: the query is the one call made after the
  query for the claim.
\<close>

theorem create_queries_volume_whatever_its_name:
  fixes env :: "'w env" and d :: ResourceData and out :: PersistentVolumeClaim
  defines "m \<equiv> expandMetadata env (metadata d)"
    and "d1 \<equiv> d\<lparr>ID := buildId (ObjectMeta out)\<rparr>"
  assumes "expandPersistentVolumeClaimSpec env (spec d) = Inr sp"
    and "conn_Create env (Namespace m) \<lparr>ObjectMeta = m, Spec = sp, Status = \<lparr>Phase = ''''\<rparr>\<rparr> s
           = (Inr out, s1)"
    and "wait_until_bound d"
    and "WaitForState (polls_within env) (stateConf env d1 m (Name (ObjectMeta out))) s1 = (Inl err, s2)"
    and "conn_getLastWarningsForObject env (ObjectMeta out) ''PersistentVolumeClaim'' 3 s2 = (Inr [], s3)"
  shows "calls (snd (resourceKubernetesPersistentVolumeClaimCreate env d s)) =
     calls s3 @
       [WarningsCall \<lparr>Name = VolumeName (Spec out), Namespace = '''', Labels = [], Annotations = []\<rparr>
          ''PersistentVolume'' 3]"
proof -
  let ?volume = "\<lparr>Name = VolumeName (Spec out), Namespace = '''', Labels = [], Annotations = []\<rparr>"
  note unfolded = create_after_failed_wait [OF assms(3-6) [unfolded m_def d1_def]]
  obtain r2 s4 where q: "conn_getLastWarningsForObject env ?volume ''PersistentVolume'' 3 s3 = (r2, s4)"
    by (cases "conn_getLastWarningsForObject env ?volume ''PersistentVolume'' 3 s3")
  have c4: "calls s4 = calls s3 @ [WarningsCall ?volume ''PersistentVolume'' 3]"
    using q by (rule conn_getLastWarningsForObject_calls)
  show ?thesis
    using assms(7) q c4 unfolding unfolded
    by (auto split: sum.splits)
qed

theorem create_queries_volume_whatever_its_name_witness:
  "calls (snd (resourceKubernetesPersistentVolumeClaimCreate cluster (claimData ''data'') session0))
   = calls afterClaimWarnings @
       [WarningsCall \<lparr>Name = '''', Namespace = '''', Labels = [], Annotations = []\<rparr>
          ''PersistentVolume'' 3]"
  using create_queries_volume_whatever_its_name
    [OF cluster_expand cluster_create cluster_flag cluster_wait cluster_claim_warnings]
  by (simp add: createdClaim_def claimNamed_def)

text \<open>
  C2 as stated fails: the created claim \<open>default/data\<close> carries no volume name, its wait
  fails in phase \<open>Lost\<close>, it has no warning events, and the query for the persistent
  volume named by the empty string is sent all the same.
\<close>

theorem create_queries_nameless_volume_counterexample:
  "VolumeName (Spec createdClaim) = ''''
   \<and> resourceKubernetesPersistentVolumeClaimCreate cluster (claimData ''data'') session0
     = ((Some (ErrorString ''unexpected state: Lost ProvisioningFailed: no volume plugin matched''),
         (claimData ''data'')\<lparr>ID := ''default/data''\<rparr>),
        afterVolumeWarnings)
   \<and> WarningsCall \<lparr>Name = '''', Namespace = '''', Labels = [], Annotations = []\<rparr>
        ''PersistentVolume'' 3 \<in> set (calls afterVolumeWarnings)"
  by (simp add: resourceKubernetesPersistentVolumeClaimCreate_def cluster_simps cluster_sessions
      poll_numeral Let_def)

text \<open>
  C5. When the wait fails, the error of \<^verbatim>\<open>Create\<close> is: the error of the warning query
  for the claim if that query fails; else, if the claim has no warnings, the error of
  the warning query for the volume if that one fails; else the text of the wait error
  followed by the rendering of the warnings collected (those of the claim, or those of
  the volume when the claim has none).
\<close>

theorem create_error_after_failed_wait:
  fixes env :: "'w env" and d :: ResourceData and out :: PersistentVolumeClaim
  defines "m \<equiv> expandMetadata env (metadata d)"
    and "d1 \<equiv> d\<lparr>ID := buildId (ObjectMeta out)\<rparr>"
    and "volume \<equiv> \<lparr>Name = VolumeName (Spec out), Namespace = '''', Labels = [], Annotations = []\<rparr>"
  assumes "expandPersistentVolumeClaimSpec env (spec d) = Inr sp"
    and "conn_Create env (Namespace m) \<lparr>ObjectMeta = m, Spec = sp, Status = \<lparr>Phase = ''''\<rparr>\<rparr> s
           = (Inr out, s1)"
    and "wait_until_bound d"
    and "WaitForState (polls_within env) (stateConf env d1 m (Name (ObjectMeta out))) s1 = (Inl err, s2)"
    and "conn_getLastWarningsForObject env (ObjectMeta out) ''PersistentVolumeClaim'' 3 s2 = (r1, s3)"
    and "conn_getLastWarningsForObject env volume ''PersistentVolume'' 3 s3 = (r2, s4)"
  shows "fst (fst (resourceKubernetesPersistentVolumeClaimCreate env d s)) =
     Some (case r1 of
             Inl wErr \<Rightarrow> wErr
           | Inr lastWarnings \<Rightarrow>
               if lastWarnings \<noteq> [] then ErrorString (Error err @ stringifyEvents env lastWarnings)
               else (case r2 of
                       Inl wErr \<Rightarrow> wErr
                     | Inr relatedWarnings \<Rightarrow>
                         ErrorString (Error err @ stringifyEvents env relatedWarnings)))"
proof -
  note unfolded = create_after_failed_wait [OF assms(4-7) [unfolded m_def d1_def]]
  show ?thesis
    using assms(8,9) unfolding unfolded volume_def
    by (simp split: sum.splits)
qed

theorem create_error_after_failed_wait_witness:
  "fst (fst (resourceKubernetesPersistentVolumeClaimCreate cluster (claimData ''data'') session0))
   = Some (ErrorString ''unexpected state: Lost ProvisioningFailed: no volume plugin matched'')"
  using create_error_after_failed_wait
    [OF cluster_expand cluster_create cluster_flag cluster_wait
        cluster_claim_warnings cluster_volume_warnings]
  by (simp add: cluster_def provisioningFailed_def)

text \<open>
  C6. When the wait fails, the calls that follow it are the warning query for the
  claim, with limit 3, and then, if and only if that query answered with no events, the
  warning query for the volume, with limit 3; nothing else.
\<close>

theorem create_diagnostic_queries:
  fixes env :: "'w env" and d :: ResourceData and out :: PersistentVolumeClaim
  defines "m \<equiv> expandMetadata env (metadata d)"
    and "d1 \<equiv> d\<lparr>ID := buildId (ObjectMeta out)\<rparr>"
    and "volume \<equiv> \<lparr>Name = VolumeName (Spec out), Namespace = '''', Labels = [], Annotations = []\<rparr>"
  assumes "expandPersistentVolumeClaimSpec env (spec d) = Inr sp"
    and "conn_Create env (Namespace m) \<lparr>ObjectMeta = m, Spec = sp, Status = \<lparr>Phase = ''''\<rparr>\<rparr> s
           = (Inr out, s1)"
    and "wait_until_bound d"
    and "WaitForState (polls_within env) (stateConf env d1 m (Name (ObjectMeta out))) s1 = (Inl err, s2)"
    and "conn_getLastWarningsForObject env (ObjectMeta out) ''PersistentVolumeClaim'' 3 s2 = (r1, s3)"
  shows "calls (snd (resourceKubernetesPersistentVolumeClaimCreate env d s)) =
     calls s2 @ WarningsCall (ObjectMeta out) ''PersistentVolumeClaim'' 3
       # (if r1 = Inr [] then [WarningsCall volume ''PersistentVolume'' 3] else [])"
proof -
  note unfolded = create_after_failed_wait [OF assms(4-7) [unfolded m_def d1_def]]
  have c3: "calls s3 = calls s2 @ [WarningsCall (ObjectMeta out) ''PersistentVolumeClaim'' 3]"
    using assms(8) by (rule conn_getLastWarningsForObject_calls)
  obtain r2 s4 where q: "conn_getLastWarningsForObject env volume ''PersistentVolume'' 3 s3 = (r2, s4)"
    by (cases "conn_getLastWarningsForObject env volume ''PersistentVolume'' 3 s3")
  have c4: "calls s4 = calls s3 @ [WarningsCall volume ''PersistentVolume'' 3]"
    using q by (rule conn_getLastWarningsForObject_calls)
  show ?thesis
    using assms(8) q c3 c4 unfolding unfolded volume_def
    by (auto split: sum.splits)
qed

theorem create_diagnostic_queries_witness:
  "calls (snd (resourceKubernetesPersistentVolumeClaimCreate cluster (claimData ''data'') session0))
   = [CreateCall ''default'' createdClaim,
      WaitCall [''Bound''] [''Pending''] (5 * Minute),
      GetCall ''default'' ''data'',
      WarningsCall (ObjectMeta createdClaim) ''PersistentVolumeClaim'' 3,
      WarningsCall \<lparr>Name = '''', Namespace = '''', Labels = [], Annotations = []\<rparr>
        ''PersistentVolume'' 3]"
  using create_diagnostic_queries
    [OF cluster_expand cluster_create cluster_flag cluster_wait cluster_claim_warnings]
  by (simp add: afterWait_def createdClaim_def claimNamed_def)

text \<open>
  C7. When the creation request succeeds and the wait fails, by an error, an unexpected
  phase or the deadline, \<^verbatim>\<open>Create\<close> fails and the resource data it leaves behind is the
  given one with the identity of the created object: the identity is not empty, no
  Delete call is among the calls of \<^verbatim>\<open>Create\<close>, and, for a namespace and a name without
  \<open>/\<close>, the identity decodes to the namespace and name of the created object, which is
  what a later \<^verbatim>\<open>Read\<close> or \<^verbatim>\<open>Delete\<close> addresses.
\<close>

theorem create_keeps_identity_after_failed_wait:
  fixes env :: "'w env" and d :: ResourceData and out :: PersistentVolumeClaim
    and s :: "'w session"
  defines "m \<equiv> expandMetadata env (metadata d)"
    and "d1 \<equiv> d\<lparr>ID := buildId (ObjectMeta out)\<rparr>"
    and "d' \<equiv> snd (fst (resourceKubernetesPersistentVolumeClaimCreate env d s))"
  assumes "expandPersistentVolumeClaimSpec env (spec d) = Inr sp"
    and "conn_Create env (Namespace m) \<lparr>ObjectMeta = m, Spec = sp, Status = \<lparr>Phase = ''''\<rparr>\<rparr> s
           = (Inr out, s1)"
    and "wait_until_bound d"
    and "WaitForState (polls_within env) (stateConf env d1 m (Name (ObjectMeta out))) s1 = (Inl err, s2)"
  shows "d' = d\<lparr>ID := buildId (ObjectMeta out)\<rparr>
     \<and> ID d' \<noteq> ''''
     \<and> fst (fst (resourceKubernetesPersistentVolumeClaimCreate env d s)) \<noteq> None
     \<and> (\<exists>cs. calls (snd (resourceKubernetesPersistentVolumeClaimCreate env d s)) = calls s @ cs
            \<and> (\<forall>namespace name. DeleteCall namespace name \<notin> set cs))
     \<and> (CHR ''/'' \<notin> set (Namespace (ObjectMeta out)) \<and> CHR ''/'' \<notin> set (Name (ObjectMeta out))
          \<longrightarrow> idParts (ID d') = Inr (Namespace (ObjectMeta out), Name (ObjectMeta out)))"
proof -
  let ?create = "resourceKubernetesPersistentVolumeClaimCreate env d s"
  let ?volume = "\<lparr>Name = VolumeName (Spec out), Namespace = '''', Labels = [], Annotations = []\<rparr>"
  note unfolded = create_after_failed_wait [OF assms(4-7) [unfolded m_def d1_def]]
  obtain r1 s3 where q1:
    "conn_getLastWarningsForObject env (ObjectMeta out) ''PersistentVolumeClaim'' 3 s2 = (r1, s3)"
    by (cases "conn_getLastWarningsForObject env (ObjectMeta out) ''PersistentVolumeClaim'' 3 s2")
  obtain r2 s4 where q2: "conn_getLastWarningsForObject env ?volume ''PersistentVolume'' 3 s3 = (r2, s4)"
    by (cases "conn_getLastWarningsForObject env ?volume ''PersistentVolume'' 3 s3")
  have c1: "calls s1 = calls s @ [CreateCall (Namespace m) \<lparr>ObjectMeta = m, Spec = sp, Status = \<lparr>Phase = ''''\<rparr>\<rparr>]"
    using assms(5) by (rule conn_Create_calls)
  obtain k where c2: "calls s2 = calls s1 @ WaitCall [''Bound''] [''Pending''] (d_Timeout d1)
      # replicate k (GetCall (Namespace m) (Name (ObjectMeta out)))"
    using WaitForState_calls [OF assms(7)] by blast
  have c3: "calls s3 = calls s2 @ [WarningsCall (ObjectMeta out) ''PersistentVolumeClaim'' 3]"
    using q1 by (rule conn_getLastWarningsForObject_calls)
  have c4: "calls s4 = calls s3 @ [WarningsCall ?volume ''PersistentVolume'' 3]"
    using q2 by (rule conn_getLastWarningsForObject_calls)
  have result: "snd (fst ?create) = d\<lparr>ID := buildId (ObjectMeta out)\<rparr>"
    and failed: "fst (fst ?create) \<noteq> None"
    and final: "snd ?create = s3 \<or> snd ?create = s4"
    using q1 q2 unfolding unfolded by (auto split: sum.splits)
  have "\<exists>cs. calls (snd ?create) = calls s @ cs \<and> (\<forall>namespace name. DeleteCall namespace name \<notin> set cs)"
  proof -
    let ?cs3 = "CreateCall (Namespace m) \<lparr>ObjectMeta = m, Spec = sp, Status = \<lparr>Phase = ''''\<rparr>\<rparr>
      # WaitCall [''Bound''] [''Pending''] (d_Timeout d1)
      # replicate k (GetCall (Namespace m) (Name (ObjectMeta out)))
      @ [WarningsCall (ObjectMeta out) ''PersistentVolumeClaim'' 3]"
    have e3: "calls s3 = calls s @ ?cs3" using c1 c2 c3 by simp
    have e4: "calls s4 = calls s @ (?cs3 @ [WarningsCall ?volume ''PersistentVolume'' 3])"
      using e3 c4 by simp
    have n3: "\<forall>namespace name. DeleteCall namespace name \<notin> set ?cs3" by auto
    have n4: "\<forall>namespace name. DeleteCall namespace name
        \<notin> set (?cs3 @ [WarningsCall ?volume ''PersistentVolume'' 3])" by auto
    from final show ?thesis
    proof
      assume "snd ?create = s3"
      then have "calls (snd ?create) = calls s @ ?cs3" using e3 by simp
      then show ?thesis using n3 by blast
    next
      assume "snd ?create = s4"
      then have "calls (snd ?create) = calls s @ (?cs3 @ [WarningsCall ?volume ''PersistentVolume'' 3])"
        using e4 by simp
      then show ?thesis using n4 by blast
    qed
  qed
  moreover have "ID (d\<lparr>ID := buildId (ObjectMeta out)\<rparr>) \<noteq> ''''"
    by (simp add: buildId_nonempty)
  moreover have "CHR ''/'' \<notin> set (Namespace (ObjectMeta out)) \<and> CHR ''/'' \<notin> set (Name (ObjectMeta out))
      \<longrightarrow> idParts (ID (d\<lparr>ID := buildId (ObjectMeta out)\<rparr>))
            = Inr (Namespace (ObjectMeta out), Name (ObjectMeta out))"
    by (simp add: idParts_buildId)
  ultimately show ?thesis
    using result failed unfolding d'_def by simp
qed

theorem create_keeps_identity_after_failed_wait_witness:
  "snd (fst (resourceKubernetesPersistentVolumeClaimCreate cluster (claimData ''data'') session0))
     = (claimData ''data'')\<lparr>ID := ''default/data''\<rparr>
   \<and> fst (fst (resourceKubernetesPersistentVolumeClaimCreate cluster (claimData ''data'') session0)) \<noteq> None
   \<and> idParts (ID (snd (fst (resourceKubernetesPersistentVolumeClaimCreate cluster (claimData ''data'')
        session0)))) = Inr (''default'', ''data'')"
  using create_keeps_identity_after_failed_wait
    [OF cluster_expand cluster_create cluster_flag cluster_wait]
  by (simp add: createdClaim_def claimNamed_def buildId_def idParts_def)

end
